theory Spec2Isabelle
  imports Main "HOL-Library.Word" "HOL-Library.Multiset"
begin

section \<open>Cherry, an OpenFlow controller: devices, ports, the REST handlers and the router\<close>

text \<open>
  The Go sources are embedded shallowly. Pointers to objects that are mutated in place and
  shared (\<open>*Device\<close>, \<open>*Port\<close>) are addresses into an explicit heap; byte slices
  (\<open>net.HardwareAddr\<close>, \<open>net.IP\<close>, \<open>[]byte\<close>) are lists of bytes, so a nil slice and
  an empty one coincide, as they do for \<open>len\<close>, \<open>bytes.Compare\<close> and \<open>String\<close>.
  A Go \<open>error\<close> result is an \<open>error option\<close> (\<open>None\<close> is nil) or the left summand of a
  sum; a panic is the constructor \<open>Panic\<close> of the result type \<open>res\<close>. The mutexes are
  left out: every method body runs under its object's lock, and the model is sequential.
\<close>

subsection \<open>Common types\<close>

type_synonym byte = "8 word"
type_synonym bytes = "byte list"
type_synonym HardwareAddr = "byte list"
type_synonym IP = "byte list"

datatype error = New string | Errorf string error

datatype 'a res = Return 'a | Panic string

subsection \<open>Devices and ports (package controller/network: port.go and the device file)\<close>

record Descriptions =
  Manufacturer :: string
  Hardware :: string
  Software :: string
  Serial :: string
  Description :: string

record Features =
  f_DPID :: "64 word"
  NumBuffers :: "32 word"
  NumTables :: "8 word"

text \<open>
  The openflow factory is an interface whose implementation is not part of these
  sources. Each constructor returns an object and an error; a factory is modelled by the
  errors its four constructors return (\<open>None\<close>: the constructor succeeds and returns a
  fresh object).
\<close>

record Factory =
  NewMatch :: "error option"
  NewAction :: "error option"
  NewInstruction :: "error option"
  NewFlowMod :: "error option"

text \<open>
  A \<open>Device\<close> object. \<open>d_ports\<close> is \<open>map[uint32]*Port\<close>: port numbers to addresses of
  \<open>Port\<close> objects, \<open>None\<close> where the Go map yields nil. \<open>d_factory\<close> is an interface
  value, \<open>None\<close> when nil. The logger and the session are external and left out.
\<close>

record Device =
  d_id :: string
  d_descriptions :: Descriptions
  d_features :: Features
  d_ports :: "32 word \<Rightarrow> nat option"
  d_flowTableID :: "8 word"
  d_factory :: "Factory option"

text \<open>
  Modelled from the spec: \<open>Node\<close> and \<open>NewNode\<close> are not among the sources; the spec
  describes a node as a (MAC, Port) association, so a node is the pair of the address of
  its port and its MAC, and \<open>NewNode\<close> builds that pair.
\<close>

record Node =
  n_port :: nat
  n_mac :: HardwareAddr

definition NewNode :: "nat \<Rightarrow> HardwareAddr \<Rightarrow> Node" where
  "NewNode port mac = \<lparr>n_port = port, n_mac = mac\<rparr>"

text \<open>
  A \<open>Port\<close> object: the address of its device, its number (Go \<open>uint\<close>), the last port
  descriptor (the interface \<open>openflow.Port\<close>, an uninterpreted type \<open>'v\<close>, \<open>None\<close> when
  nil) and the nodes learned on it.
\<close>

record 'v Port =
  p_device :: nat
  p_number :: nat
  p_value :: "'v option"
  p_nodes :: "Node list"

text \<open>
  The heap: an address is an index into the list of objects of its type. Allocation
  appends, so a new object's address is fresh, and no object is ever freed.
\<close>

record 'v heap =
  devices :: "Device list"
  port_objs :: "'v Port list"

definition NewPort :: "'v heap \<Rightarrow> nat \<Rightarrow> nat \<Rightarrow> nat \<times> 'v heap" where
  "NewPort h d num =
     (length (port_objs h),
      h\<lparr>port_objs := port_objs h @
         [\<lparr>p_device = d, p_number = num, p_value = None, p_nodes = []\<rparr>]\<rparr>)"

definition Value :: "'v heap \<Rightarrow> nat \<Rightarrow> 'v option" where
  "Value h r = p_value (port_objs h ! r)"

definition SetValue :: "'v heap \<Rightarrow> nat \<Rightarrow> 'v option \<Rightarrow> 'v heap" where
  "SetValue h r p = h\<lparr>port_objs := (port_objs h)[r := (port_objs h ! r)\<lparr>p_value := p\<rparr>]\<rparr>"

definition Nodes :: "'v heap \<Rightarrow> nat \<Rightarrow> Node list" where
  "Nodes h r = p_nodes (port_objs h ! r)"

definition AddNode :: "'v heap \<Rightarrow> nat \<Rightarrow> HardwareAddr \<Rightarrow> Node \<times> 'v heap" where
  "AddNode h r mac =
     (let node = NewNode r mac
      in (node,
          h\<lparr>port_objs := (port_objs h)[r := (port_objs h ! r)
               \<lparr>p_nodes := p_nodes (port_objs h ! r) @ [node]\<rparr>]\<rparr>))"

text \<open>\<open>Device.Port\<close>: the address of the port numbered \<open>num\<close>, \<open>None\<close> for nil.\<close>

definition Device_Port :: "'v heap \<Rightarrow> nat \<Rightarrow> 32 word \<Rightarrow> nat option" where
  "Device_Port h r num = d_ports (devices h ! r) num"

definition setPort :: "'v heap \<Rightarrow> nat \<Rightarrow> 32 word \<Rightarrow> 'v option \<Rightarrow> 'v heap" where
  "setPort h r num p =
     (let (port, h1) = NewPort h r (unat num);
          h2 = SetValue h1 port p
      in h2\<lparr>devices := (devices h2)[r := (devices h2 ! r)
              \<lparr>d_ports := (d_ports (devices h2 ! r))(num \<mapsto> port)\<rparr>]\<rparr>)"

definition addPort :: "'v heap \<Rightarrow> nat \<Rightarrow> 32 word \<Rightarrow> 'v option \<Rightarrow> 'v heap res" where
  "addPort h r num p =
     (if p = None then Panic ''Port is nil''
      else Return (setPort h r num p))"

definition updatePort :: "'v heap \<Rightarrow> nat \<Rightarrow> 32 word \<Rightarrow> 'v option \<Rightarrow> 'v heap res" where
  "updatePort h r num p =
     (if p = None then Panic ''Port is nil''
      else (case d_ports (devices h ! r) num of
              None \<Rightarrow> Return (setPort h r num p)
            | Some port \<Rightarrow> Return (SetValue h port p)))"

text \<open>A heap with one device (address 0) that has port number 3 at address 0, where the
  node \<open>aa:aa:aa:aa:aa:01\<close> has been learned.\<close>

definition mac_a :: HardwareAddr where
  "mac_a = [0xaa, 0xaa, 0xaa, 0xaa, 0xaa, 0x01]"

definition dev0 :: Device where
  "dev0 = \<lparr>d_id = ''1'',
     d_descriptions = \<lparr>Manufacturer = [], Hardware = [], Software = [], Serial = [],
       Description = []\<rparr>,
     d_features = \<lparr>f_DPID = 1, NumBuffers = 256, NumTables = 1\<rparr>,
     d_ports = Map.empty(3 \<mapsto> 0),
     d_flowTableID = 0,
     d_factory = Some \<lparr>NewMatch = None, NewAction = None, NewInstruction = None,
       NewFlowMod = None\<rparr>\<rparr>"

definition heap0 :: "nat heap" where
  "heap0 = \<lparr>devices = [dev0],
     port_objs = [\<lparr>p_device = 0, p_number = 3, p_value = Some 7,
       p_nodes = [NewNode 0 mac_a]\<rparr>]\<rparr>"

subsection \<open>The REST handlers of the controller (package network)\<close>

record Switch =
  DPID :: "64 word"
  NumPorts :: "16 word"
  FirstPort :: "16 word"
  sw_Description :: string

definition validate :: "Switch \<Rightarrow> error option" where
  "validate r =
     (if NumPorts r > 512 then Some (New ''too many ports'')
      else if (ucast (FirstPort r) :: 32 word) + (ucast (NumPorts r) :: 32 word) > 0xFFFF
        then Some (New ''too high first port number'')
      else None)"

text \<open>\<open>RegisteredSwitch\<close> embeds \<open>Switch\<close>.\<close>

record RegisteredSwitch =
  rs_ID :: "64 word"
  rs_Switch :: Switch

text \<open>The status codes (an \<open>iota\<close> block) and their messages.\<close>

definition okay :: int where "okay = 0"
definition queryFailed :: int where "queryFailed = 1"
definition decodeFailed :: int where "decodeFailed = 2"
definition invalidParam :: int where "invalidParam = 3"
definition duplicatedDPID :: int where "duplicatedDPID = 4"
definition invalidSwitchID :: int where "invalidSwitchID = 5"
definition unknownSwitchID :: int where "unknownSwitchID = 6"
definition internalServerErr :: int where "internalServerErr = 7"

definition statusMsgs :: "int \<Rightarrow> string option" where
  "statusMsgs status =
     (if status = okay then Some ''no error''
      else if status = queryFailed then Some ''failed to query from database: %v''
      else if status = decodeFailed then Some ''failed to decode input parameters: %v''
      else if status = invalidParam then Some ''invalid input parameter: %v''
      else if status = duplicatedDPID then Some ''duplicated switch DPID''
      else if status = invalidSwitchID then Some ''invalid switch ID: %v''
      else if status = unknownSwitchID then Some ''unknown switch ID''
      else if status = internalServerErr then Some ''internal server error''
      else None)"

text \<open>
  The JSON envelope a handler writes. \<open>fmt.Sprintf(format, args...)\<close> is kept as the
  format with its arguments.
\<close>

datatype msg = Sprintf string "error list"

record response =
  Status :: int
  Msg :: msg

definition writeStatus :: "int \<Rightarrow> error list \<Rightarrow> response res" where
  "writeStatus status args =
     (case statusMsgs status of
        None \<Rightarrow> Panic ''unknown status code: %v''
      | Some format \<Rightarrow> Return \<lparr>Status = status, Msg = Sprintf format args\<rparr>)"

text \<open>
  The \<open>database\<close> interface of the controller over an abstract database state \<open>'db\<close>.
  \<open>AddSwitch\<close> and \<open>RemoveSwitch\<close> may change the state, \<open>Switch\<close> and \<open>Switches\<close> are
  queries. \<open>Location\<close> is not used by the handlers and left out.
\<close>

record 'db database =
  db_AddSwitch :: "'db \<Rightarrow> Switch \<Rightarrow> error option \<times> 'db"
  db_RemoveSwitch :: "'db \<Rightarrow> 64 word \<Rightarrow> (error + bool) \<times> 'db"
  db_Switch :: "'db \<Rightarrow> 64 word \<Rightarrow> error + (RegisteredSwitch \<times> bool)"
  db_Switches :: "'db \<Rightarrow> error + RegisteredSwitch list"

text \<open>What a handler does besides answering: the calls it makes on the database and on
  the connected devices (type \<open>'dev\<close>), and the warnings it logs, in order.\<close>

datatype 'dev call =
    Call_Switch "64 word"
  | Call_AddSwitch Switch
  | Call_RemoveSwitch "64 word"
  | Call_RemoveAllFlows 'dev
  | Log_Warning string

text \<open>
  \<open>addSwitch\<close>. The request is given by what \<open>DecodeJsonPayload\<close> makes of its body: an
  error or a \<open>Switch\<close>. The result is the response written, the calls made and the
  database state afterwards.
\<close>

definition addSwitch ::
  "'db database \<Rightarrow> 'db \<Rightarrow> error + Switch \<Rightarrow> response res \<times> 'dev call list \<times> 'db" where
  "addSwitch db s req =
     (case req of
        Inl err \<Rightarrow> (writeStatus decodeFailed [err], [], s)
      | Inr sw \<Rightarrow>
          (case validate sw of
             Some err \<Rightarrow> (writeStatus invalidParam [err], [], s)
           | None \<Rightarrow>
               (case db_Switch db s (DPID sw) of
                  Inl err \<Rightarrow> (writeStatus queryFailed [err], [Call_Switch (DPID sw)], s)
                | Inr (_, ok) \<Rightarrow>
                    if ok then (writeStatus duplicatedDPID [], [Call_Switch (DPID sw)], s)
                    else (case db_AddSwitch db s sw of
                            (Some err, s') \<Rightarrow>
                              (writeStatus queryFailed [err],
                               [Call_Switch (DPID sw), Call_AddSwitch sw], s')
                          | (None, s') \<Rightarrow>
                              (writeStatus okay [],
                               [Call_Switch (DPID sw), Call_AddSwitch sw], s')))))"

text \<open>The loop of \<open>removeSwitch\<close> over \<open>r.topo.Devices()\<close>; \<open>raf\<close> is what
  \<open>RemoveAllFlows\<close> returns on each device.\<close>

fun removeAllFlows_loop :: "('dev \<Rightarrow> error option) \<Rightarrow> 'dev list \<Rightarrow> 'dev call list" where
  "removeAllFlows_loop raf [] = []"
| "removeAllFlows_loop raf (sw # sws) =
     (case raf sw of
        Some err \<Rightarrow>
          Call_RemoveAllFlows sw #
          Log_Warning ''Controller: failed to remove all flows on %v device: %v'' #
          removeAllFlows_loop raf sws
      | None \<Rightarrow> Call_RemoveAllFlows sw # removeAllFlows_loop raf sws)"

text \<open>
  \<open>removeSwitch\<close>. The request is given by what \<open>strconv.ParseUint\<close> makes of its path
  parameter \<open>id\<close>; \<open>devs\<close> is what \<open>r.topo.Devices()\<close> returns, the connected devices.
\<close>

definition removeSwitch ::
  "'db database \<Rightarrow> ('dev \<Rightarrow> error option) \<Rightarrow> 'dev list \<Rightarrow> 'db \<Rightarrow> error + 64 word \<Rightarrow>
   response res \<times> 'dev call list \<times> 'db" where
  "removeSwitch db raf devs s req =
     (case req of
        Inl err \<Rightarrow> (writeStatus invalidSwitchID [err], [], s)
      | Inr i \<Rightarrow>
          (case db_RemoveSwitch db s i of
             (Inl err, s') \<Rightarrow> (writeStatus queryFailed [err], [Call_RemoveSwitch i], s')
           | (Inr ok, s') \<Rightarrow>
               if \<not> ok then (writeStatus unknownSwitchID [], [Call_RemoveSwitch i], s')
               else (writeStatus okay [],
                     Call_RemoveSwitch i # removeAllFlows_loop raf devs, s')))"

text \<open>The devices on which a list of calls invokes \<open>RemoveAllFlows\<close>, in order, and the
  switches it hands to \<open>AddSwitch\<close>.\<close>

fun flows_removed :: "'dev call list \<Rightarrow> 'dev list" where
  "flows_removed [] = []"
| "flows_removed (Call_RemoveAllFlows d # cs) = d # flows_removed cs"
| "flows_removed (_ # cs) = flows_removed cs"

fun switches_added :: "'dev call list \<Rightarrow> Switch list" where
  "switches_added [] = []"
| "switches_added (Call_AddSwitch sw # cs) = sw # switches_added cs"
| "switches_added (_ # cs) = switches_added cs"

text \<open>
  A database for the examples: the state is the list of registered switches,
  \<open>Switch\<close> looks a DPID up, \<open>AddSwitch\<close> appends with the next id, \<open>RemoveSwitch\<close>
  deletes by id; no query fails.
\<close>

definition list_db :: "RegisteredSwitch list database" where
  "list_db = \<lparr>
     db_AddSwitch = (\<lambda>s sw. (None, s @ [\<lparr>rs_ID = of_nat (length s) + 1, rs_Switch = sw\<rparr>])),
     db_RemoveSwitch = (\<lambda>s i. (Inr (i \<in> set (map rs_ID s)), filter (\<lambda>x. rs_ID x \<noteq> i) s)),
     db_Switch = (\<lambda>s d. case filter (\<lambda>x. DPID (rs_Switch x) = d) s of
                          [] \<Rightarrow> Inr (\<lparr>rs_ID = 0, rs_Switch = \<lparr>DPID = 0, NumPorts = 0,
                                  FirstPort = 0, sw_Description = []\<rparr>\<rparr>, False)
                        | x # _ \<Rightarrow> Inr (x, True)),
     db_Switches = (\<lambda>s. Inr s)\<rparr>"

definition sw1 :: Switch where
  "sw1 = \<lparr>DPID = 1, NumPorts = 4, FirstPort = 1, sw_Description = ''s1''\<rparr>"

definition sw600 :: Switch where
  "sw600 = \<lparr>DPID = 2, NumPorts = 600, FirstPort = 1, sw_Description = ''s2''\<rparr>"

definition db1 :: "RegisteredSwitch list" where
  "db1 = [\<lparr>rs_ID = 1, rs_Switch = sw1\<rparr>]"

subsection \<open>Packets and OpenFlow objects the router uses\<close>

text \<open>
  The packages \<open>protocol\<close> and \<open>openflow\<close> and the type \<open>network.Port\<close> are not among
  the sources: the codecs and the constructors \<open>protocol.NewIPv4\<close> and
  \<open>protocol.NewICMPEchoReply\<close> are parameters of the model (record \<open>env\<close> below), and
  the structures are records of the fields the router reads and the setters it calls.
\<close>

record Ethernet =
  SrcMAC :: HardwareAddr
  DstMAC :: HardwareAddr
  eth_Type :: "16 word"
  eth_Payload :: bytes

record IPv4 =
  SrcIP :: IP
  DstIP :: IP
  Protocol :: "8 word"
  ip_Payload :: bytes

record ICMPEcho =
  icmp_Type :: "8 word"
  ID :: "16 word"
  Sequence :: "16 word"
  icmp_Payload :: bytes

record IPNet =
  net_IP :: IP
  Mask :: bytes

definition IPv4Mask :: "byte \<Rightarrow> byte \<Rightarrow> byte \<Rightarrow> byte \<Rightarrow> bytes" where
  "IPv4Mask a b c d = [a, b, c, d]"

text \<open>A \<open>network.Port\<close> as the router sees it: \<open>Device()\<close> and \<open>Number()\<close>. The router
  only reads ports and devices, so they are values here, not heap addresses.\<close>

record network_Port =
  np_device :: Device
  np_number :: "32 word"

record network_Node =
  nn_port :: network_Port
  nn_mac :: HardwareAddr

text \<open>\<open>network.Finder\<close>: \<open>Node\<close> (\<open>None\<close> for nil) and \<open>Path\<close> (a nil path is the empty
  list), whose elements \<open>path[i][0]\<close> and \<open>path[i][1]\<close> are ports.\<close>

record Finder =
  finder_Node :: "HardwareAddr \<Rightarrow> network_Node option"
  finder_Path :: "string \<Rightarrow> string \<Rightarrow> (network_Port \<times> network_Port) list"

text \<open>OpenFlow objects: a new object has no field set, a setter sets its field.
  \<open>NewInPort()\<close> and \<open>NewOutPort()\<close> followed by \<open>SetValue(n)\<close> give the port value \<open>n\<close>.\<close>

record Match =
  m_InPort :: "32 word option"
  m_EtherType :: "16 word option"
  m_SrcMAC :: "HardwareAddr option"
  m_DstMAC :: "HardwareAddr option"
  m_DstIP :: "IPNet option"

definition new_Match :: Match where
  "new_Match = \<lparr>m_InPort = None, m_EtherType = None, m_SrcMAC = None, m_DstMAC = None,
     m_DstIP = None\<rparr>"

record Action =
  a_DstMAC :: "HardwareAddr option"
  a_OutPort :: "32 word option"

definition new_Action :: Action where
  "new_Action = \<lparr>a_DstMAC = None, a_OutPort = None\<rparr>"

record Instruction =
  ApplyAction :: "Action option"

definition new_Instruction :: Instruction where
  "new_Instruction = \<lparr>ApplyAction = None\<rparr>"

datatype FlowCommand = FlowAdd

record FlowMod =
  Command :: FlowCommand
  TableID :: "8 word option"
  IdleTimeout :: "16 word option"
  Priority :: "16 word option"
  FlowMatch :: "Match option"
  FlowInstruction :: "Instruction option"

definition new_FlowMod :: "FlowCommand \<Rightarrow> FlowMod" where
  "new_FlowMod cmd = \<lparr>Command = cmd, TableID = None, IdleTimeout = None, Priority = None,
     FlowMatch = None, FlowInstruction = None\<rparr>"

subsection \<open>The router (package router)\<close>

text \<open>
  What the router does to the outside, in order: log lines (level and format string; the
  formatted arguments are dropped), \<open>PacketOut\<close> on a port, \<open>Device.SendMessage\<close> of a
  flow-mod, and \<open>BaseProcessor.OnPacketIn\<close>, which hands the event to the next processor.
\<close>

datatype level = Debug | Info | Warning | Err

datatype effect =
    Log level string
  | PacketOut network_Port bytes
  | SendMessage Device FlowMod
  | Next_OnPacketIn network_Port Ethernet

type_synonym outcome = "error option res \<times> effect list"

text \<open>
  The router's collaborators: the database, \<open>net.IPNet.Contains\<close>, \<open>rand.Intn\<close>, the
  codecs and constructors of package \<open>protocol\<close>, and what \<open>BaseProcessor.OnPacketIn\<close>,
  \<open>BaseProcessor.PacketOut\<close> and \<open>Device.SendMessage\<close> return. The database is read
  only and answers the same during one packet-in. \<open>FindMAC\<close> returns \<open>(mac, ok)\<close> or an
  error; \<open>GetGateways\<close> and \<open>GetNetworks\<close> return a list (nil is empty) or an error.
\<close>

record env =
  db_FindMAC :: "IP \<Rightarrow> error + (HardwareAddr \<times> bool)"
  db_GetGateways :: "error + HardwareAddr list"
  db_GetNetworks :: "error + IPNet list"
  db_IsGateway :: "HardwareAddr \<Rightarrow> error + bool"
  db_IsRouter :: "IP \<Rightarrow> error + bool"
  net_Contains :: "IPNet \<Rightarrow> IP \<Rightarrow> bool"
  rand_Intn :: "nat \<Rightarrow> nat"
  IPv4_UnmarshalBinary :: "bytes \<Rightarrow> error + IPv4"
  ICMPEcho_UnmarshalBinary :: "bytes \<Rightarrow> error + ICMPEcho"
  ICMPEcho_MarshalBinary :: "ICMPEcho \<Rightarrow> error + bytes"
  IPv4_MarshalBinary :: "IPv4 \<Rightarrow> error + bytes"
  Ethernet_MarshalBinary :: "Ethernet \<Rightarrow> error + bytes"
  protocol_NewICMPEchoReply :: "16 word \<Rightarrow> 16 word \<Rightarrow> bytes \<Rightarrow> ICMPEcho"
  protocol_NewIPv4 :: "IP \<Rightarrow> IP \<Rightarrow> 8 word \<Rightarrow> bytes \<Rightarrow> IPv4"
  base_OnPacketIn :: "network_Port \<Rightarrow> Ethernet \<Rightarrow> error option"
  base_PacketOut :: "network_Port \<Rightarrow> bytes \<Rightarrow> error option"
  Device_SendMessage :: "Device \<Rightarrow> FlowMod \<Rightarrow> error option"

text \<open>
  The router holds its virtual MAC (\<open>conf\<close>, \<open>log\<close> and \<open>db\<close> are in \<open>env\<close> and the effects).
  The getters \<open>Device.ID()\<close>, \<open>Device.Factory()\<close> and \<open>Device.FlowTableID()\<close> return
  their fields and are the field selectors here. \<open>route\<close> and \<open>sendPacket\<close> assign
  \<open>p.ethernet.DstMAC = mac\<close> through the pointer to the frame: the frame they pass on
  or marshal is the updated one, while a \<open>flowParam\<close> built before the assignment keeps
  the old destination MAC.
\<close>

record Router =
  r_mac :: HardwareAddr

record packet =
  ingress :: network_Port
  ethernet :: Ethernet
  ipv4 :: IPv4

record flowParam =
  fp_device :: Device
  etherType :: "16 word"
  inPort :: "32 word"
  outPort :: "32 word"
  srcMAC :: HardwareAddr
  dstMAC :: HardwareAddr
  targetMAC :: HardwareAddr
  dstIP :: IPNet

text \<open>\<open>logged l x\<close>: the effects \<open>l\<close> happen, then \<open>x\<close>.\<close>

definition logged :: "effect list \<Rightarrow> outcome \<Rightarrow> outcome" where
  "logged l x = (fst x, l @ snd x)"

definition installFlow :: "env \<Rightarrow> flowParam \<Rightarrow> outcome" where
  "installFlow env p =
     (case d_factory (fp_device p) of
        None \<Rightarrow> (Panic ''invalid memory address or nil pointer dereference'', [])
      | Some f \<Rightarrow>
          let inPort' = inPort p in
          (case NewMatch f of
             Some err \<Rightarrow> (Return (Some err), [])
           | None \<Rightarrow>
               let match = new_Match\<lparr>m_InPort := Some inPort',
                                      m_EtherType := Some (etherType p),
                                      m_SrcMAC := Some (srcMAC p),
                                      m_DstMAC := Some (dstMAC p),
                                      m_DstIP := Some (dstIP p)\<rparr>;
                   outPort' = outPort p
               in (case NewAction f of
                     Some err \<Rightarrow> (Return (Some err), [])
                   | None \<Rightarrow>
                       let action = new_Action\<lparr>a_DstMAC := Some (targetMAC p),
                                                a_OutPort := Some outPort'\<rparr>
                       in (case NewInstruction f of
                             Some err \<Rightarrow> (Return (Some err), [])
                           | None \<Rightarrow>
                               let inst = new_Instruction\<lparr>ApplyAction := Some action\<rparr>
                               in (case NewFlowMod f of
                                     Some err \<Rightarrow> (Return (Some err), [])
                                   | None \<Rightarrow>
                                       let flow = (new_FlowMod FlowAdd)
                                             \<lparr>TableID := Some (d_flowTableID (fp_device p)),
                                              IdleTimeout := Some 30,
                                              Priority := Some 30,
                                              FlowMatch := Some match,
                                              FlowInstruction := Some inst\<rparr>
                                       in (Return (Device_SendMessage env (fp_device p) flow),
                                           [SendMessage (fp_device p) flow]))))))"

definition pickGateway :: "(nat \<Rightarrow> nat) \<Rightarrow> HardwareAddr list \<Rightarrow> HardwareAddr res" where
  "pickGateway intn gateways =
     (if gateways = [] then Panic ''Invalid gateways''
      else if length gateways = 1 then Return (gateways ! 0)
      else (let i = intn (length gateways)
            in if i < length gateways then Return (gateways ! i)
               else Panic ''index out of range''))"

definition sendPacket :: "env \<Rightarrow> packet \<Rightarrow> network_Port \<Rightarrow> HardwareAddr \<Rightarrow> outcome" where
  "sendPacket env p egress mac =
     (let param = \<lparr>fp_device = np_device (ingress p),
                   etherType = eth_Type (ethernet p),
                   inPort = np_number (ingress p),
                   outPort = np_number egress,
                   srcMAC = SrcMAC (ethernet p),
                   dstMAC = DstMAC (ethernet p),
                   targetMAC = mac,
                   dstIP = \<lparr>net_IP = DstIP (ipv4 p), Mask = IPv4Mask 255 255 255 255\<rparr>\<rparr>;
          eth = (ethernet p)\<lparr>DstMAC := mac\<rparr>
      in (case Ethernet_MarshalBinary env eth of
            Inl err \<Rightarrow> (Return (Some err), [])
          | Inr packet \<Rightarrow>
              (case installFlow env param of
                 (Panic s, effs) \<Rightarrow>
                   (Panic s, Log Debug ''Router: installing a flow.. %+v'' # effs)
               | (Return (Some err), effs) \<Rightarrow>
                   (Return (Some err), Log Debug ''Router: installing a flow.. %+v'' # effs)
               | (Return None, effs) \<Rightarrow>
                   (Return (base_PacketOut env egress packet),
                    Log Debug ''Router: installing a flow.. %+v'' # effs @
                    [Log Debug ''Router: sending a packet to egress port %v..'',
                     PacketOut egress packet]))))"

definition route :: "env \<Rightarrow> Finder \<Rightarrow> packet \<Rightarrow> HardwareAddr \<Rightarrow> outcome" where
  "route env finder p mac =
     (case finder_Node finder mac of
        None \<Rightarrow>
          (let eth = (ethernet p)\<lparr>DstMAC := mac\<rparr>
           in (Return (base_OnPacketIn env (ingress p) eth),
               [Log Debug ''Router: we don't know where the node is connected.. (MAC=%v)'',
                Next_OnPacketIn (ingress p) eth]))
      | Some dstNode \<Rightarrow>
          if d_id (np_device (ingress p)) = d_id (np_device (nn_port dstNode)) then
            logged [Log Debug ''Router: two nodes are connected to a same switch..'']
              (sendPacket env p (nn_port dstNode) mac)
          else
            (let path = finder_Path finder (d_id (np_device (ingress p)))
                          (d_id (np_device (nn_port dstNode)))
             in if path = [] then
                  (Return None, [Log Info ''Router: not found a path from %v to %v''])
                else sendPacket env p (fst (path ! 0)) mac))"

fun contains_any :: "(IPNet \<Rightarrow> IP \<Rightarrow> bool) \<Rightarrow> IPNet list \<Rightarrow> IP \<Rightarrow> bool" where
  "contains_any c [] ip = False"
| "contains_any c (n # ns) ip = (if c n ip then True else contains_any c ns ip)"

definition isMyNetwork :: "env \<Rightarrow> IP \<Rightarrow> error + bool" where
  "isMyNetwork env ip =
     (case db_GetNetworks env of
        Inl err \<Rightarrow> Inl err
      | Inr networks \<Rightarrow> Inr (contains_any (net_Contains env) networks ip))"

definition sendICMPReply :: "env \<Rightarrow> packet \<Rightarrow> outcome" where
  "sendICMPReply env p =
     (let ignore = (Return None,
            [Log Debug ''Rotuer: ignores ICMP message that is not echo request..''])
      in (case ICMPEcho_UnmarshalBinary env (ip_Payload (ipv4 p)) of
            Inl err \<Rightarrow> ignore
          | Inr echo \<Rightarrow>
              if icmp_Type echo \<noteq> 8 then ignore
              else
                (let reply = protocol_NewICMPEchoReply env (ID echo) (Sequence echo)
                               (icmp_Payload echo)
                 in (case ICMPEcho_MarshalBinary env reply of
                       Inl err \<Rightarrow>
                         (Return (Some (Errorf ''marshaling ICMP echo reply: %v'' err)), [])
                     | Inr replyPacket \<Rightarrow>
                         (let ip = protocol_NewIPv4 env (DstIP (ipv4 p)) (SrcIP (ipv4 p)) 0x01
                                     replyPacket
                          in (case IPv4_MarshalBinary env ip of
                                Inl err \<Rightarrow>
                                  (Return (Some (Errorf ''marshaling IPv4 packet: %v'' err)), [])
                              | Inr ipPacket \<Rightarrow>
                                  (let eth = \<lparr>SrcMAC = DstMAC (ethernet p),
                                              DstMAC = SrcMAC (ethernet p),
                                              eth_Type = 0x0800,
                                              eth_Payload = ipPacket\<rparr>
                                   in (case Ethernet_MarshalBinary env eth of
                                         Inl err \<Rightarrow>
                                           (Return (Some (Errorf
                                              ''marshaling ethernet packet: %v'' err)), [])
                                       | Inr ethPacket \<Rightarrow>
                                           (Return (base_PacketOut env (ingress p) ethPacket),
                                            [Log Debug ''Router: sending ICMP reply to %v..'',
                                             PacketOut (ingress p) ethPacket])))))))))"

definition handleIncoming :: "env \<Rightarrow> Finder \<Rightarrow> packet \<Rightarrow> outcome" where
  "handleIncoming env finder p =
     logged [Log Debug
        ''Router: handle incoming packet.. SrcMAC=%v, DstMAC=%v, SrcIP=%v, DstIP=%v'']
       (case db_FindMAC env (DstIP (ipv4 p)) of
          Inl err \<Rightarrow> (Return (Some err), [])
        | Inr (mac, ok) \<Rightarrow>
            if \<not> ok then
              (Return None,
               [Log Debug
                  ''Router: drop the incoming packet that goes to an unknown host %v from %v''])
            else
              logged [Log Debug
                 ''Router: routing the incoming packet to a host.. DstIP=%v, DstMAC=%v'']
                (route env finder p mac))"

definition handleOutgoing :: "env \<Rightarrow> Finder \<Rightarrow> packet \<Rightarrow> outcome" where
  "handleOutgoing env finder p =
     logged [Log Debug
        ''Router: handle outgoing packet.. SrcMAC=%v, DstMAC=%v, SrcIP=%v, DstIP=%v'',
        Log Debug
        ''Router: checking whether the outgoing packet (SrcMAC=%v) came from a gateway..'']
       (case db_IsGateway env (SrcMAC (ethernet p)) of
          Inl err \<Rightarrow> (Return (Some (Errorf ''checking gateway MAC: %v'' err)), [])
        | Inr ok \<Rightarrow>
            if ok then
              (Return None,
               [Log Err ''Router: Loop is detected!! Did you add network address for %v?''])
            else
              (case isMyNetwork env (SrcIP (ipv4 p)) of
                 Inl err \<Rightarrow> (Return (Some (Errorf ''checking my networks: %v'' err)), [])
               | Inr mine \<Rightarrow>
                   if \<not> mine then
                     (Return None,
                      [Log Warning ''Router: IP spoofing is detected!! SrcIP=%v, DstIP=%v''])
                   else
                     (case db_GetGateways env of
                        Inl err \<Rightarrow>
                          (Return (Some (Errorf ''query gateway MAC addresses: %v'' err)), [])
                      | Inr gateways \<Rightarrow>
                          if gateways = [] then
                            (Return None,
                             [Log Err
                                ''Router: not found a gateway MAC address for outgoing packets!''])
                          else
                            logged (map (\<lambda>v. Log Debug ''Router: found a Gateway MAC: %v'')
                                      gateways)
                              (case pickGateway (rand_Intn env) gateways of
                                 Panic s \<Rightarrow> (Panic s, [])
                               | Return mac \<Rightarrow>
                                   logged [Log Debug
                                      ''Router: gateway %v is selected for the outgoing packet!'']
                                     (route env finder p mac)))))"

definition OnPacketIn :: "env \<Rightarrow> Router \<Rightarrow> Finder \<Rightarrow> network_Port \<Rightarrow> Ethernet \<Rightarrow> outcome" where
  "OnPacketIn env r finder ingress' eth =
     logged [Log Debug ''Router: PACKET_IN.. Ingress=%v, SrcMAC=%v, DstMAC=%v'']
       (if DstMAC eth \<noteq> r_mac r then
          (Return (base_OnPacketIn env ingress' eth),
           [Log Debug
              ''Router: ignore PACKET_IN as it's not going to the router.. Ingress=%v, SrcMAC=%v, DstMAC=%v'',
            Next_OnPacketIn ingress' eth])
        else if eth_Type eth \<noteq> 0x0800 then
          (Return None,
           [Log Debug ''Router: drop non-IPv4 packet.. (ethType=%v, SrcMAC=%v, DstMAC=%v)''])
        else
          (case IPv4_UnmarshalBinary env (eth_Payload eth) of
             Inl err \<Rightarrow> (Return (Some err), [])
           | Inr ipv4' \<Rightarrow>
               (let p = \<lparr>ingress = ingress', ethernet = eth, ipv4 = ipv4'\<rparr>
                in (case db_IsRouter env (DstIP ipv4') of
                      Inl err \<Rightarrow> (Return (Some (Errorf ''checking router IP: %v'' err)), [])
                    | Inr ok \<Rightarrow>
                        if ok then
                          (if Protocol ipv4' = 0x01 then sendICMPReply env p
                           else (Return None, []))
                        else
                          (case isMyNetwork env (DstIP ipv4') of
                             Inl err \<Rightarrow>
                               (Return (Some (Errorf ''checking my networks: %v'' err)), [])
                           | Inr mine \<Rightarrow>
                               if mine then handleIncoming env finder p
                               else handleOutgoing env finder p)))))"

text \<open>What a list of effects sends out, installs and passes on.\<close>

fun packet_outs :: "effect list \<Rightarrow> (network_Port \<times> bytes) list" where
  "packet_outs [] = []"
| "packet_outs (PacketOut port b # es) = (port, b) # packet_outs es"
| "packet_outs (_ # es) = packet_outs es"

fun flow_mods :: "effect list \<Rightarrow> (Device \<times> FlowMod) list" where
  "flow_mods [] = []"
| "flow_mods (SendMessage d f # es) = (d, f) # flow_mods es"
| "flow_mods (_ # es) = flow_mods es"

fun passed_on :: "effect list \<Rightarrow> (network_Port \<times> Ethernet) list" where
  "passed_on [] = []"
| "passed_on (Next_OnPacketIn port eth # es) = (port, eth) # passed_on es"
| "passed_on (_ # es) = passed_on es"

text \<open>
  An environment for the examples. The router's virtual MAC is \<open>00:11:22:33:44:55\<close>, the
  only router IP is 10.0.0.1, the only network is 192.168.1.0/24 and the gateways are
  \<open>gw1\<close> and \<open>gw2\<close>. The codecs are toys, not the wire formats: a payload \<open>[k]\<close> decodes
  to the \<open>k\<close>-th of four IPv4 packets, marshalling concatenates fields and the
  constructors fill the fields with their arguments. Host
  192.168.1.6 has MAC \<open>bb:bb:bb:bb:bb:02\<close>, attached to device 2; the gateways are
  attached to device 2 as well, and the finder knows no path.
\<close>

definition vmac :: HardwareAddr where
  "vmac = [0x00, 0x11, 0x22, 0x33, 0x44, 0x55]"

definition mac_b :: HardwareAddr where
  "mac_b = [0xbb, 0xbb, 0xbb, 0xbb, 0xbb, 0x02]"

definition gw1 :: HardwareAddr where
  "gw1 = [0x02, 0x00, 0x00, 0x00, 0x00, 0x01]"

definition gw2 :: HardwareAddr where
  "gw2 = [0x02, 0x00, 0x00, 0x00, 0x00, 0x02]"

definition dev2 :: Device where
  "dev2 = dev0\<lparr>d_id := ''2''\<rparr>"

definition port1 :: network_Port where
  "port1 = \<lparr>np_device = dev0, np_number = 1\<rparr>"

definition port2 :: network_Port where
  "port2 = \<lparr>np_device = dev2, np_number = 2\<rparr>"

definition ip_echo :: IPv4 where
  "ip_echo = \<lparr>SrcIP = [192, 168, 1, 5], DstIP = [10, 0, 0, 1], Protocol = 1,
     ip_Payload = [8]\<rparr>"

definition ip_in :: IPv4 where
  "ip_in = \<lparr>SrcIP = [8, 8, 8, 8], DstIP = [192, 168, 1, 6], Protocol = 6, ip_Payload = []\<rparr>"

definition ip_out :: IPv4 where
  "ip_out = \<lparr>SrcIP = [192, 168, 1, 5], DstIP = [8, 8, 8, 8], Protocol = 6, ip_Payload = []\<rparr>"

definition ip_spoofed :: IPv4 where
  "ip_spoofed = \<lparr>SrcIP = [172, 16, 0, 9], DstIP = [8, 8, 8, 8], Protocol = 6,
     ip_Payload = []\<rparr>"

definition echo_req :: ICMPEcho where
  "echo_req = \<lparr>icmp_Type = 8, ID = 7, Sequence = 1, icmp_Payload = [0x61, 0x62]\<rparr>"

definition env0 :: env where
  "env0 = \<lparr>
     db_FindMAC = (\<lambda>ip. if ip = [192, 168, 1, 6] then Inr (mac_b, True) else Inr ([], False)),
     db_GetGateways = Inr [gw1, gw2],
     db_GetNetworks = Inr [\<lparr>net_IP = [192, 168, 1, 0], Mask = [255, 255, 255, 0]\<rparr>],
     db_IsGateway = (\<lambda>m. Inr (m = gw1 \<or> m = gw2)),
     db_IsRouter = (\<lambda>ip. Inr (ip = [10, 0, 0, 1])),
     net_Contains = (\<lambda>n ip. take 3 ip = take 3 (net_IP n)),
     rand_Intn = (\<lambda>n. n - 1),
     IPv4_UnmarshalBinary = (\<lambda>b. if b = [1] then Inr ip_echo else if b = [2] then Inr ip_in
        else if b = [3] then Inr ip_out else if b = [4] then Inr ip_spoofed
        else Inl (New ''malformed'')),
     ICMPEcho_UnmarshalBinary = (\<lambda>b. if b = [8] then Inr echo_req else Inl (New ''malformed'')),
     ICMPEcho_MarshalBinary = (\<lambda>c. Inr (icmp_Type c # icmp_Payload c)),
     IPv4_MarshalBinary = (\<lambda>i. Inr (SrcIP i @ DstIP i @ Protocol i # ip_Payload i)),
     Ethernet_MarshalBinary = (\<lambda>e. Inr (DstMAC e @ SrcMAC e @ eth_Payload e)),
     protocol_NewICMPEchoReply = (\<lambda>i s payload.
        \<lparr>icmp_Type = 0, ID = i, Sequence = s, icmp_Payload = payload\<rparr>),
     protocol_NewIPv4 = (\<lambda>src dst proto payload.
        \<lparr>SrcIP = src, DstIP = dst, Protocol = proto, ip_Payload = payload\<rparr>),
     base_OnPacketIn = (\<lambda>port eth. None),
     base_PacketOut = (\<lambda>port b. None),
     Device_SendMessage = (\<lambda>d f. None)\<rparr>"

definition router0 :: Router where
  "router0 = \<lparr>r_mac = vmac\<rparr>"

definition finder0 :: Finder where
  "finder0 = \<lparr>
     finder_Node = (\<lambda>m. if m = mac_b \<or> m = gw1 \<or> m = gw2
                         then Some \<lparr>nn_port = port2, nn_mac = m\<rparr> else None),
     finder_Path = (\<lambda>a b. [])\<rparr>"

definition frame :: "HardwareAddr \<Rightarrow> HardwareAddr \<Rightarrow> 16 word \<Rightarrow> bytes \<Rightarrow> Ethernet" where
  "frame src dst t payload = \<lparr>SrcMAC = src, DstMAC = dst, eth_Type = t, eth_Payload = payload\<rparr>"

text \<open>The action a flow-mod applies, if it has an instruction that applies one.\<close>

definition flow_action :: "FlowMod \<Rightarrow> Action option" where
  "flow_action f = (case FlowInstruction f of None \<Rightarrow> None | Some i \<Rightarrow> ApplyAction i)"

text \<open>A flow parameter whose target MAC is its destination MAC, and an environment
  whose database cannot answer \<open>IsGateway\<close>.\<close>

definition fp0 :: flowParam where
  "fp0 = \<lparr>fp_device = dev0, etherType = 0x0800, inPort = 1, outPort = 2, srcMAC = mac_a,
     dstMAC = mac_b, targetMAC = mac_b,
     dstIP = \<lparr>net_IP = [192, 168, 1, 6], Mask = IPv4Mask 255 255 255 255\<rparr>\<rparr>"


definition env_down :: env where
  "env_down = env0\<lparr>db_IsGateway := (\<lambda>m. Inl (New ''connection refused''))\<rparr>"

section \<open>Theorems\<close>

subsection \<open>Ports and nodes\<close>

lemma Nodes_AddNode:
  "r < length (port_objs h) \<Longrightarrow> Nodes (snd (AddNode h r mac)) r = Nodes h r @ [NewNode r mac]"
  by (simp add: AddNode_def Nodes_def Let_def)

text \<open>
  C1 as stated fails: \<open>AddNode\<close> never looks at the nodes already present. On the port that
  already holds \<open>aa:aa:aa:aa:aa:01\<close>, adding the same MAC again changes the multiset of
  MACs returned by \<open>Nodes\<close>.
\<close>

theorem AddNode_duplicate_counterexample:
  "mac_a \<in> set (map n_mac (Nodes heap0 0)) \<and>
   mset (map n_mac (Nodes (snd (AddNode heap0 0 mac_a)) 0)) \<noteq> mset (map n_mac (Nodes heap0 0))"
  by (simp add: AddNode_def Nodes_def heap0_def NewNode_def Let_def)

text \<open>
  C1, amended: \<open>Port.AddNode(m)\<close> appends one node with MAC \<open>m\<close> whether or not one is
  present: the multiset of MACs returned by \<open>Port.Nodes()\<close> afterwards is the one before
  with one more copy of \<open>m\<close>, and the returned node carries \<open>m\<close>.
\<close>

theorem AddNode_appends:
  "r < length (port_objs h) \<Longrightarrow>
   mset (map n_mac (Nodes (snd (AddNode h r m)) r)) = add_mset m (mset (map n_mac (Nodes h r)))
   \<and> n_mac (fst (AddNode h r m)) = m"
  by (simp add: Nodes_AddNode) (simp add: AddNode_def NewNode_def Let_def)

theorem AddNode_appends_witness:
  "(0::nat) < length (port_objs heap0) \<and>
   mset (map n_mac (Nodes (snd (AddNode heap0 0 mac_a)) 0)) = {#mac_a, mac_a#}"
  using AddNode_appends [of 0 heap0 mac_a]
  by (simp add: heap0_def Nodes_def NewNode_def)

subsection \<open>Devices: replacing and updating a port\<close>

text \<open>
  C10. On a device \<open>r\<close>: when the port map holds the port object \<open>a\<close> under number \<open>n\<close>,
  \<open>updatePort(n, p)\<close> keeps the map and the object's address, number, device and node
  list, stores \<open>p\<close> as its descriptor and touches no other port object; \<open>addPort(n, p)\<close>
  always puts a newly allocated port object (at an address the heap did not have) under
  \<open>n\<close>, with number \<open>n\<close>, descriptor \<open>p\<close> and an empty node list, whatever was learned on
  port \<open>n\<close> before; the objects already on the heap stay as they were.
\<close>

theorem updatePort_addPort_frame:
  assumes "r < length (devices h)"
  shows
   "(\<forall>a. Device_Port h r n = Some a \<and> a < length (port_objs h) \<longrightarrow>
      (case updatePort h r n (Some p) of
         Panic s \<Rightarrow> False
       | Return h' \<Rightarrow>
           Device_Port h' r n = Some a \<and> devices h' = devices h \<and>
           length (port_objs h') = length (port_objs h) \<and>
           Value h' a = Some p \<and>
           p_number (port_objs h' ! a) = p_number (port_objs h ! a) \<and>
           p_device (port_objs h' ! a) = p_device (port_objs h ! a) \<and>
           Nodes h' a = Nodes h a \<and>
           (\<forall>b. b \<noteq> a \<longrightarrow> port_objs h' ! b = port_objs h ! b)))
    \<and>
    (case addPort h r n (Some p) of
       Panic s \<Rightarrow> False
     | Return h' \<Rightarrow>
         Device_Port h' r n = Some (length (port_objs h)) \<and>
         length (port_objs h') = Suc (length (port_objs h)) \<and>
         take (length (port_objs h)) (port_objs h') = port_objs h \<and>
         Nodes h' (length (port_objs h)) = [] \<and>
         Value h' (length (port_objs h)) = Some p \<and>
         p_number (port_objs h' ! length (port_objs h)) = unat n \<and>
         p_device (port_objs h' ! length (port_objs h)) = r)"
proof -
  have upd: "updatePort h r n (Some p) = Return (SetValue h a (Some p))"
    if "Device_Port h r n = Some a" for a
    using that by (simp add: updatePort_def Device_Port_def)
  have 1: "Device_Port (SetValue h a (Some p)) r n = Device_Port h r n"
    "devices (SetValue h a (Some p)) = devices h"
    "length (port_objs (SetValue h a (Some p))) = length (port_objs h)"
    "\<forall>b. b \<noteq> a \<longrightarrow> port_objs (SetValue h a (Some p)) ! b = port_objs h ! b" for a
    by (simp_all add: SetValue_def Device_Port_def)
  have 2: "Value (SetValue h a (Some p)) a = Some p"
    "Nodes (SetValue h a (Some p)) a = Nodes h a"
    "p_number (port_objs (SetValue h a (Some p)) ! a) = p_number (port_objs h ! a)"
    "p_device (port_objs (SetValue h a (Some p)) ! a) = p_device (port_objs h ! a)"
    if "a < length (port_objs h)" for a
    using that by (simp_all add: SetValue_def Value_def Nodes_def)
  have add: "addPort h r n (Some p) = Return (setPort h r n (Some p))"
    by (simp add: addPort_def)
  have sp: "port_objs (setPort h r n (Some p)) = port_objs h @
      [\<lparr>p_device = r, p_number = unat n, p_value = Some p, p_nodes = []\<rparr>]"
    by (simp add: setPort_def NewPort_def SetValue_def Let_def)
  have 3: "Device_Port (setPort h r n (Some p)) r n = Some (length (port_objs h))"
    using assms by (simp add: setPort_def NewPort_def SetValue_def Let_def Device_Port_def)
  have 4: "Nodes (setPort h r n (Some p)) (length (port_objs h)) = []"
    "Value (setPort h r n (Some p)) (length (port_objs h)) = Some p"
    "p_number (port_objs (setPort h r n (Some p)) ! length (port_objs h)) = unat n"
    "p_device (port_objs (setPort h r n (Some p)) ! length (port_objs h)) = r"
    "take (length (port_objs h)) (port_objs (setPort h r n (Some p))) = port_objs h"
    "length (port_objs (setPort h r n (Some p))) = Suc (length (port_objs h))"
    by (simp_all add: sp Nodes_def Value_def)
  show ?thesis
    by (simp add: upd add 1 2 3 4)
qed

theorem updatePort_addPort_frame_witness:
  "(0::nat) < length (devices heap0) \<and> Device_Port heap0 0 3 = Some 0 \<and>
   0 < length (port_objs heap0) \<and> Nodes heap0 0 = [NewNode 0 mac_a] \<and>
   (case updatePort heap0 0 3 (Some 9) of Panic s \<Rightarrow> False
    | Return h' \<Rightarrow> Device_Port h' 0 3 = Some 0 \<and> Value h' 0 = Some 9 \<and>
        Nodes h' 0 = [NewNode 0 mac_a]) \<and>
   (case addPort heap0 0 3 (Some 9) of Panic s \<Rightarrow> False
    | Return h' \<Rightarrow> Device_Port h' 0 3 = Some 1 \<and> Value h' 1 = Some 9 \<and> Nodes h' 1 = [])"
proof -
  have a: "(0::nat) < length (devices heap0)" by (simp add: heap0_def)
  have b: "Device_Port heap0 0 3 = Some 0" by (simp add: heap0_def Device_Port_def dev0_def)
  have c: "(0::nat) < length (port_objs heap0)" by (simp add: heap0_def)
  have n: "Nodes heap0 0 = [NewNode 0 mac_a]" "length (port_objs heap0) = 1"
    by (simp_all add: heap0_def Nodes_def)
  show ?thesis
    using updatePort_addPort_frame [OF a, of 3 9] a b c
    by (auto simp: n split: res.splits)
qed

subsection \<open>The REST handlers\<close>

lemma validate_iff:
  "validate sw \<noteq> None \<longleftrightarrow>
     512 < unat (NumPorts sw) \<or> 65535 < unat (FirstPort sw) + unat (NumPorts sw)"
proof -
  have a: "unat (FirstPort sw) < 65536" "unat (NumPorts sw) < 65536"
    using unsigned_less [of "FirstPort sw"] unsigned_less [of "NumPorts sw"] by simp_all
  have "unat ((ucast (FirstPort sw) :: 32 word) + (ucast (NumPorts sw) :: 32 word))
        = unat (FirstPort sw) + unat (NumPorts sw)"
    using a by (simp add: unat_word_ariths unsigned_ucast_eq take_bit_nat_eq_self)
  then show ?thesis
    by (simp add: validate_def word_less_nat_alt)
qed


lemma flows_removed_loop: "flows_removed (removeAllFlows_loop raf devs) = devs"
  by (induction devs) (simp_all split: option.split)

text \<open>
  C4. A request that decodes to \<open>sw\<close> is always answered; the answer is invalidParam (3)
  exactly when \<open>n_ports > 512\<close> or the exact sum \<open>first_port + n_ports\<close> exceeds 0xFFFF,
  and then the database is not called or changed; with valid parameters and a database
  that reports the DPID as registered the answer is duplicatedDPID (4), \<open>AddSwitch\<close> is
  not called and the database state is unchanged.
\<close>

theorem addSwitch_rejects:
  "\<exists>r (calls :: 'dev call list) s'.
     addSwitch db s (Inr sw) = (Return r, calls, s') \<and>
     invalidParam = 3 \<and> duplicatedDPID = 4 \<and>
     (Status r = invalidParam \<longleftrightarrow>
        512 < unat (NumPorts sw) \<or> 0xFFFF < unat (FirstPort sw) + unat (NumPorts sw)) \<and>
     (Status r = invalidParam \<longrightarrow> calls = [] \<and> s' = s) \<and>
     (Status r \<noteq> invalidParam \<and> (\<exists>rs. db_Switch db s (DPID sw) = Inr (rs, True)) \<longrightarrow>
        Status r = duplicatedDPID \<and> switches_added calls = [] \<and> s' = s)"
proof (cases "validate sw")
  case (Some err)
  then have bad: "512 < unat (NumPorts sw) \<or> 65535 < unat (FirstPort sw) + unat (NumPorts sw)"
    using validate_iff [of sw] by simp
  have "addSwitch db s (Inr sw) =
      (Return \<lparr>Status = invalidParam, Msg = Sprintf ''invalid input parameter: %v'' [err]\<rparr>,
       [] :: 'dev call list, s)"
    using Some
    by (simp add: addSwitch_def writeStatus_def statusMsgs_def invalidParam_def okay_def
        queryFailed_def decodeFailed_def)
  then show ?thesis
    using bad by (auto simp: invalidParam_def duplicatedDPID_def)
next
  case None
  then have good: "\<not> (512 < unat (NumPorts sw) \<or> 65535 < unat (FirstPort sw) + unat (NumPorts sw))"
    using validate_iff [of sw] by simp
  have codes: "invalidParam = 3" "duplicatedDPID = 4" "okay \<noteq> invalidParam"
    "queryFailed \<noteq> invalidParam" "duplicatedDPID \<noteq> invalidParam"
    by (simp_all add: invalidParam_def duplicatedDPID_def okay_def queryFailed_def)
  have ws: "writeStatus queryFailed [e] =
      Return \<lparr>Status = queryFailed, Msg = Sprintf ''failed to query from database: %v'' [e]\<rparr>"
    "writeStatus duplicatedDPID [] =
      Return \<lparr>Status = duplicatedDPID, Msg = Sprintf ''duplicated switch DPID'' []\<rparr>"
    "writeStatus okay [] = Return \<lparr>Status = okay, Msg = Sprintf ''no error'' []\<rparr>" for e
    by (simp_all add: writeStatus_def statusMsgs_def invalidParam_def duplicatedDPID_def
        okay_def queryFailed_def decodeFailed_def)
  show ?thesis
  proof (cases "db_Switch db s (DPID sw)")
    case (Inl err)
    then show ?thesis
      using None good codes by (simp add: addSwitch_def ws)
  next
    case (Inr p)
    obtain rs ok where p: "p = (rs, ok)" by (cases p)
    show ?thesis
    proof (cases ok)
      case True
      then show ?thesis
        using None good codes Inr p by (simp add: addSwitch_def ws)
    next
      case False
      obtain e s1 where a: "db_AddSwitch db s sw = (e, s1)" by (cases "db_AddSwitch db s sw")
      show ?thesis
        using None good codes Inr p False a
        by (cases e) (simp_all add: addSwitch_def ws)
    qed
  qed
qed

theorem addSwitch_rejects_witness:
  "fst (addSwitch list_db db1 (Inr sw600)) =
     Return \<lparr>Status = 3, Msg = Sprintf ''invalid input parameter: %v'' [New ''too many ports'']\<rparr>
   \<and> fst (addSwitch list_db db1 (Inr sw1)) =
     Return \<lparr>Status = 4, Msg = Sprintf ''duplicated switch DPID'' []\<rparr>
   \<and> snd (snd (addSwitch list_db db1 (Inr sw1))) = db1
   \<and> (\<exists>rs. db_Switch list_db db1 (DPID sw1) = Inr (rs, True))"
proof -
  have q: "db_Switch list_db db1 (DPID sw1) = Inr (\<lparr>rs_ID = 1, rs_Switch = sw1\<rparr>, True)"
    by (simp add: list_db_def db1_def)
  have v: "validate sw1 = None" "validate sw600 = Some (New ''too many ports'')"
    by (simp_all add: validate_def sw1_def sw600_def)
  have ws: "writeStatus invalidParam [e] =
      Return \<lparr>Status = 3, Msg = Sprintf ''invalid input parameter: %v'' [e]\<rparr>"
    "writeStatus duplicatedDPID [] =
      Return \<lparr>Status = 4, Msg = Sprintf ''duplicated switch DPID'' []\<rparr>" for e
    by (simp_all add: writeStatus_def statusMsgs_def invalidParam_def duplicatedDPID_def
        okay_def queryFailed_def decodeFailed_def)
  show ?thesis
    using addSwitch_rejects [where db = list_db and s = db1 and sw = sw1] q
    by (simp add: addSwitch_def v ws)
qed

text \<open>
  C5. For a request whose id parses to \<open>i\<close>: when the database reports \<open>i\<close> unknown the
  answer is unknownSwitchID (6) and \<open>RemoveAllFlows\<close> is invoked on no device; when the
  removal succeeds the answer is okay (0) and \<open>RemoveAllFlows\<close> is invoked on the
  connected devices, once each and in their order, whatever each invocation returns.
\<close>

theorem removeSwitch_clears_flows:
  "(case removeSwitch db raf devs s (Inr i) of
      (rsp, calls, s') \<Rightarrow>
        unknownSwitchID = 6 \<and> okay = 0 \<and>
        (fst (db_RemoveSwitch db s i) = Inr False \<longrightarrow>
           rsp = Return \<lparr>Status = unknownSwitchID, Msg = Sprintf ''unknown switch ID'' []\<rparr> \<and>
           flows_removed calls = []) \<and>
        (fst (db_RemoveSwitch db s i) = Inr True \<longrightarrow>
           rsp = Return \<lparr>Status = okay, Msg = Sprintf ''no error'' []\<rparr> \<and>
           flows_removed calls = devs))"
proof -
  obtain q s1 where r: "db_RemoveSwitch db s i = (q, s1)" by (cases "db_RemoveSwitch db s i")
  have ws: "writeStatus unknownSwitchID [] =
      Return \<lparr>Status = unknownSwitchID, Msg = Sprintf ''unknown switch ID'' []\<rparr>"
    "writeStatus okay [] = Return \<lparr>Status = okay, Msg = Sprintf ''no error'' []\<rparr>"
    by (simp_all add: writeStatus_def statusMsgs_def invalidParam_def duplicatedDPID_def
        okay_def queryFailed_def decodeFailed_def unknownSwitchID_def invalidSwitchID_def)
  show ?thesis
  proof (cases q)
    case (Inl err)
    then show ?thesis
      using r by (simp add: removeSwitch_def unknownSwitchID_def okay_def)
  next
    case (Inr ok)
    then show ?thesis
      using r by (simp add: removeSwitch_def ws flows_removed_loop)
        (simp add: unknownSwitchID_def okay_def)
  qed
qed

theorem removeSwitch_clears_flows_witness:
  "fst (db_RemoveSwitch list_db db1 1) = Inr True \<and>
   fst (db_RemoveSwitch list_db db1 5) = Inr False \<and>
   removeSwitch list_db (\<lambda>d. if d = (2::nat) then Some (New ''closed'') else None) [1, 2, 3] db1 (Inr 1) =
     (Return \<lparr>Status = 0, Msg = Sprintf ''no error'' []\<rparr>,
      [Call_RemoveSwitch 1, Call_RemoveAllFlows 1, Call_RemoveAllFlows 2,
       Log_Warning ''Controller: failed to remove all flows on %v device: %v'',
       Call_RemoveAllFlows 3], []) \<and>
   removeSwitch list_db (\<lambda>d. if d = (2::nat) then Some (New ''closed'') else None) [1, 2, 3] db1 (Inr 5) =
     (Return \<lparr>Status = 6, Msg = Sprintf ''unknown switch ID'' []\<rparr>, [Call_RemoveSwitch 5], db1)"
  using removeSwitch_clears_flows [where db = list_db and s = db1 and i = 1 and devs = "[1, 2, 3]"
        and raf = "\<lambda>d. if d = (2::nat) then Some (New ''closed'') else None"]
  by (simp add: removeSwitch_def list_db_def db1_def writeStatus_def statusMsgs_def
        okay_def queryFailed_def decodeFailed_def invalidParam_def duplicatedDPID_def
        invalidSwitchID_def unknownSwitchID_def)

subsection \<open>The router: frames it ignores, frames it drops, ICMP echo\<close>

text \<open>
  C6. A packet-in whose destination MAC is not the router's virtual MAC goes, unchanged
  and with its ingress port, to the next processor, whose result is returned; one to the
  virtual MAC whose Ethernet type is not 0x0800 returns nil with nothing sent, installed
  or passed on.
\<close>

theorem OnPacketIn_not_for_router:
  "(DstMAC eth \<noteq> r_mac r \<longrightarrow>
      fst (OnPacketIn env r finder port eth) = Return (base_OnPacketIn env port eth) \<and>
      passed_on (snd (OnPacketIn env r finder port eth)) = [(port, eth)] \<and>
      packet_outs (snd (OnPacketIn env r finder port eth)) = [] \<and>
      flow_mods (snd (OnPacketIn env r finder port eth)) = []) \<and>
   (DstMAC eth = r_mac r \<and> eth_Type eth \<noteq> 0x0800 \<longrightarrow>
      fst (OnPacketIn env r finder port eth) = Return None \<and>
      passed_on (snd (OnPacketIn env r finder port eth)) = [] \<and>
      packet_outs (snd (OnPacketIn env r finder port eth)) = [] \<and>
      flow_mods (snd (OnPacketIn env r finder port eth)) = [])"
  by (simp add: OnPacketIn_def logged_def)

theorem OnPacketIn_not_for_router_witness:
  "DstMAC (frame mac_a mac_b 0x0800 [2]) \<noteq> r_mac router0 \<and>
   OnPacketIn env0 router0 finder0 port1 (frame mac_a mac_b 0x0800 [2]) =
     (Return None,
      [Log Debug ''Router: PACKET_IN.. Ingress=%v, SrcMAC=%v, DstMAC=%v'',
       Log Debug
         ''Router: ignore PACKET_IN as it's not going to the router.. Ingress=%v, SrcMAC=%v, DstMAC=%v'',
       Next_OnPacketIn port1 (frame mac_a mac_b 0x0800 [2])]) \<and>
   DstMAC (frame mac_a vmac 0x0806 [2]) = r_mac router0 \<and>
   eth_Type (frame mac_a vmac 0x0806 [2]) \<noteq> 0x0800 \<and>
   OnPacketIn env0 router0 finder0 port1 (frame mac_a vmac 0x0806 [2]) =
     (Return None,
      [Log Debug ''Router: PACKET_IN.. Ingress=%v, SrcMAC=%v, DstMAC=%v'',
       Log Debug ''Router: drop non-IPv4 packet.. (ethType=%v, SrcMAC=%v, DstMAC=%v)''])"
  using OnPacketIn_not_for_router [of "frame mac_a mac_b 0x0800 [2]" router0 env0 finder0 port1]
  by (simp add: OnPacketIn_def logged_def frame_def router0_def vmac_def mac_b_def env0_def)





subsection \<open>Flow construction\<close>

text \<open>
  C3 as stated fails: \<open>installFlow\<close> calls \<open>SetDstMAC(targetMAC)\<close> on the action
  whatever the destination MAC is, and sets the priority 30 itself. For a flow parameter
  whose target MAC equals its destination MAC the action still rewrites the destination
  MAC: it is not the bare output action.
\<close>

theorem installFlow_same_mac_counterexample:
  "targetMAC fp0 = dstMAC fp0 \<and>
   map (flow_action \<circ> snd) (flow_mods (snd (installFlow env0 fp0))) =
     [Some \<lparr>a_DstMAC = Some (targetMAC fp0), a_OutPort = Some (outPort fp0)\<rparr>] \<and>
   map (flow_action \<circ> snd) (flow_mods (snd (installFlow env0 fp0))) \<noteq>
     [Some \<lparr>a_DstMAC = None, a_OutPort = Some (outPort fp0)\<rparr>] \<and>
   map (Priority \<circ> snd) (flow_mods (snd (installFlow env0 fp0))) = [Some 30]"
  by (simp add: installFlow_def Let_def fp0_def dev0_def flow_action_def new_Match_def new_Action_def
      new_Instruction_def new_FlowMod_def)

text \<open>
  C3, amended. When the device has a factory and its four constructors succeed,
  \<open>installFlow\<close> sends the device exactly one flow-mod and returns what \<open>SendMessage\<close>
  returns. The flow-mod is a \<open>FlowAdd\<close> with table id \<open>device.FlowTableID()\<close>, idle
  timeout 30 and the fixed priority 30; its match holds the in-port, Ethernet type,
  source MAC, destination MAC and destination IP of the parameter; its instruction
  applies the action that sets the destination MAC to \<open>targetMAC\<close> and outputs on
  \<open>outPort\<close>, also when \<open>targetMAC\<close> equals \<open>dstMAC\<close>.
\<close>

theorem installFlow_flow:
  assumes "d_factory (fp_device p) = Some f"
    and "NewMatch f = None" and "NewAction f = None"
    and "NewInstruction f = None" and "NewFlowMod f = None"
  shows "installFlow env p =
     (Return (Device_SendMessage env (fp_device p)
        \<lparr>Command = FlowAdd, TableID = Some (d_flowTableID (fp_device p)),
         IdleTimeout = Some 30, Priority = Some 30,
         FlowMatch = Some \<lparr>m_InPort = Some (inPort p), m_EtherType = Some (etherType p),
           m_SrcMAC = Some (srcMAC p), m_DstMAC = Some (dstMAC p), m_DstIP = Some (dstIP p)\<rparr>,
         FlowInstruction = Some \<lparr>ApplyAction =
           Some \<lparr>a_DstMAC = Some (targetMAC p), a_OutPort = Some (outPort p)\<rparr>\<rparr>\<rparr>),
      [SendMessage (fp_device p)
        \<lparr>Command = FlowAdd, TableID = Some (d_flowTableID (fp_device p)),
         IdleTimeout = Some 30, Priority = Some 30,
         FlowMatch = Some \<lparr>m_InPort = Some (inPort p), m_EtherType = Some (etherType p),
           m_SrcMAC = Some (srcMAC p), m_DstMAC = Some (dstMAC p), m_DstIP = Some (dstIP p)\<rparr>,
         FlowInstruction = Some \<lparr>ApplyAction =
           Some \<lparr>a_DstMAC = Some (targetMAC p), a_OutPort = Some (outPort p)\<rparr>\<rparr>\<rparr>])"
  using assms
  by (simp add: installFlow_def Let_def new_Match_def new_Action_def new_Instruction_def
      new_FlowMod_def)

theorem installFlow_flow_witness:
  "installFlow env0 fp0 =
     (Return None,
      [SendMessage dev0
        \<lparr>Command = FlowAdd, TableID = Some 0, IdleTimeout = Some 30, Priority = Some 30,
         FlowMatch = Some \<lparr>m_InPort = Some 1, m_EtherType = Some 0x0800,
           m_SrcMAC = Some mac_a, m_DstMAC = Some mac_b,
           m_DstIP = Some \<lparr>net_IP = [192, 168, 1, 6], Mask = [255, 255, 255, 255]\<rparr>\<rparr>,
         FlowInstruction = Some \<lparr>ApplyAction =
           Some \<lparr>a_DstMAC = Some mac_b, a_OutPort = Some 2\<rparr>\<rparr>\<rparr>])"
proof -
  have f: "d_factory (fp_device fp0) =
      Some \<lparr>NewMatch = None, NewAction = None, NewInstruction = None, NewFlowMod = None\<rparr>"
    by (simp add: fp0_def dev0_def)
  have t: "d_flowTableID dev0 = 0" by (simp add: dev0_def)
  show ?thesis
    using installFlow_flow [OF f, of env0]
    by (simp add: fp0_def env0_def IPv4Mask_def t)
qed

subsection \<open>The router: outgoing packets\<close>

lemma packet_outs_append: "packet_outs (xs @ ys) = packet_outs xs @ packet_outs ys"
  by (induction xs rule: packet_outs.induct) simp_all

lemma flow_mods_append: "flow_mods (xs @ ys) = flow_mods xs @ flow_mods ys"
  by (induction xs rule: flow_mods.induct) simp_all

lemma passed_on_append: "passed_on (xs @ ys) = passed_on xs @ passed_on ys"
  by (induction xs rule: passed_on.induct) simp_all

lemma observers_map_Log:
  "packet_outs (map (\<lambda>v. Log l s) gs) = []"
  "flow_mods (map (\<lambda>v. Log l s) gs) = []"
  "passed_on (map (\<lambda>v. Log l s) gs) = []"
  by (induction gs) simp_all

lemma OnPacketIn_outgoing:
  assumes "DstMAC eth = r_mac r" and "eth_Type eth = 0x0800"
    and "IPv4_UnmarshalBinary env (eth_Payload eth) = Inr ip"
    and "db_IsRouter env (DstIP ip) = Inr False"
    and "isMyNetwork env (DstIP ip) = Inr False"
  shows "OnPacketIn env r finder port eth =
     logged [Log Debug ''Router: PACKET_IN.. Ingress=%v, SrcMAC=%v, DstMAC=%v'']
       (handleOutgoing env finder \<lparr>ingress = port, ethernet = eth, ipv4 = ip\<rparr>)"
  using assms by (simp add: OnPacketIn_def)

lemma OnPacketIn_incoming:
  assumes "DstMAC eth = r_mac r" and "eth_Type eth = 0x0800"
    and "IPv4_UnmarshalBinary env (eth_Payload eth) = Inr ip"
    and "db_IsRouter env (DstIP ip) = Inr False"
    and "isMyNetwork env (DstIP ip) = Inr True"
  shows "OnPacketIn env r finder port eth =
     logged [Log Debug ''Router: PACKET_IN.. Ingress=%v, SrcMAC=%v, DstMAC=%v'']
       (handleIncoming env finder \<lparr>ingress = port, ethernet = eth, ipv4 = ip\<rparr>)"
  using assms by (simp add: OnPacketIn_def)

text \<open>
  C7 as stated fails: \<open>handleOutgoing\<close> asks \<open>IsGateway\<close> before it looks at the source
  IP. An outgoing packet from the gateway \<open>gw1\<close> with the source IP 172.16.0.9, outside
  every network, is dropped with the loop error in the log and no spoofing warning; and
  when \<open>IsGateway\<close> fails, the same packet from \<open>aa:aa:aa:aa:aa:01\<close> is not dropped as
  spoofing: the handler returns the error of the gateway check.
\<close>

theorem handleOutgoing_order_counterexample:
  "isMyNetwork env0 (SrcIP ip_spoofed) = Inr False \<and>
   db_IsGateway env0 gw1 = Inr True \<and>
   OnPacketIn env0 router0 finder0 port1 (frame gw1 vmac 0x0800 [4]) =
     (Return None,
      [Log Debug ''Router: PACKET_IN.. Ingress=%v, SrcMAC=%v, DstMAC=%v'',
       Log Debug ''Router: handle outgoing packet.. SrcMAC=%v, DstMAC=%v, SrcIP=%v, DstIP=%v'',
       Log Debug
         ''Router: checking whether the outgoing packet (SrcMAC=%v) came from a gateway..'',
       Log Err ''Router: Loop is detected!! Did you add network address for %v?'']) \<and>
   isMyNetwork env_down (SrcIP ip_spoofed) = Inr False \<and>
   fst (OnPacketIn env_down router0 finder0 port1 (frame mac_a vmac 0x0800 [4])) =
     Return (Some (Errorf ''checking gateway MAC: %v'' (New ''connection refused'')))"
  by (simp add: OnPacketIn_def handleOutgoing_def logged_def isMyNetwork_def env_down_def
      env0_def router0_def frame_def ip_spoofed_def gw1_def gw2_def vmac_def)

text \<open>
  C7, amended. For an outgoing packet (to the virtual MAC, IPv4, destination IP neither a
  router IP nor inside a configured network) the handler first checks whether the source
  MAC is a gateway and, if so, logs a loop and drops the packet, whatever its source IP;
  only then it checks that the source IP lies within a configured network and drops the
  packet as spoofing otherwise; in both cases it returns nil with no flow installed, no
  packet-out and nothing passed on. Only then, with a non-empty gateway list, it routes
  to the gateway \<open>gateways[rand.Intn(len(gateways))]\<close> (the only one when there is one).
\<close>

theorem handleOutgoing_order:
  assumes "DstMAC eth = r_mac r" and "eth_Type eth = 0x0800"
    and "IPv4_UnmarshalBinary env (eth_Payload eth) = Inr ip"
    and "db_IsRouter env (DstIP ip) = Inr False"
    and "isMyNetwork env (DstIP ip) = Inr False"
  shows
   "(db_IsGateway env (SrcMAC eth) = Inr True \<longrightarrow>
       OnPacketIn env r finder port eth =
         (Return None,
          [Log Debug ''Router: PACKET_IN.. Ingress=%v, SrcMAC=%v, DstMAC=%v'',
           Log Debug ''Router: handle outgoing packet.. SrcMAC=%v, DstMAC=%v, SrcIP=%v, DstIP=%v'',
           Log Debug
             ''Router: checking whether the outgoing packet (SrcMAC=%v) came from a gateway..'',
           Log Err ''Router: Loop is detected!! Did you add network address for %v?''])) \<and>
    (db_IsGateway env (SrcMAC eth) = Inr False \<and> isMyNetwork env (SrcIP ip) = Inr False \<longrightarrow>
       OnPacketIn env r finder port eth =
         (Return None,
          [Log Debug ''Router: PACKET_IN.. Ingress=%v, SrcMAC=%v, DstMAC=%v'',
           Log Debug ''Router: handle outgoing packet.. SrcMAC=%v, DstMAC=%v, SrcIP=%v, DstIP=%v'',
           Log Debug
             ''Router: checking whether the outgoing packet (SrcMAC=%v) came from a gateway..'',
           Log Warning ''Router: IP spoofing is detected!! SrcIP=%v, DstIP=%v''])) \<and>
    (db_IsGateway env (SrcMAC eth) = Inr False \<and> isMyNetwork env (SrcIP ip) = Inr True \<and>
     db_GetGateways env = Inr gateways \<and> gateways \<noteq> [] \<and>
     rand_Intn env (length gateways) < length gateways \<longrightarrow>
       OnPacketIn env r finder port eth =
         logged
           ([Log Debug ''Router: PACKET_IN.. Ingress=%v, SrcMAC=%v, DstMAC=%v'',
             Log Debug
               ''Router: handle outgoing packet.. SrcMAC=%v, DstMAC=%v, SrcIP=%v, DstIP=%v'',
             Log Debug
               ''Router: checking whether the outgoing packet (SrcMAC=%v) came from a gateway..'']
            @ map (\<lambda>v. Log Debug ''Router: found a Gateway MAC: %v'') gateways
            @ [Log Debug ''Router: gateway %v is selected for the outgoing packet!''])
           (route env finder \<lparr>ingress = port, ethernet = eth, ipv4 = ip\<rparr>
              (gateways ! (if length gateways = 1 then 0
                           else rand_Intn env (length gateways)))))"
proof -
  have pick: "gateways \<noteq> [] \<Longrightarrow> rand_Intn env (length gateways) < length gateways \<Longrightarrow>
      pickGateway (rand_Intn env) gateways =
        Return (gateways ! (if length gateways = 1 then 0 else rand_Intn env (length gateways)))"
    by (simp add: pickGateway_def)
  show ?thesis
    unfolding OnPacketIn_outgoing [OF assms]
    by (auto simp: handleOutgoing_def logged_def pick)
qed

theorem handleOutgoing_order_witness:
  "db_IsGateway env0 (SrcMAC (frame gw1 vmac 0x0800 [3])) = Inr True \<and>
   OnPacketIn env0 router0 finder0 port1 (frame gw1 vmac 0x0800 [3]) =
     (Return None,
      [Log Debug ''Router: PACKET_IN.. Ingress=%v, SrcMAC=%v, DstMAC=%v'',
       Log Debug ''Router: handle outgoing packet.. SrcMAC=%v, DstMAC=%v, SrcIP=%v, DstIP=%v'',
       Log Debug
         ''Router: checking whether the outgoing packet (SrcMAC=%v) came from a gateway..'',
       Log Err ''Router: Loop is detected!! Did you add network address for %v?'']) \<and>
   db_IsGateway env0 (SrcMAC (frame mac_a vmac 0x0800 [4])) = Inr False \<and>
   isMyNetwork env0 (SrcIP ip_spoofed) = Inr False \<and>
   OnPacketIn env0 router0 finder0 port1 (frame mac_a vmac 0x0800 [4]) =
     (Return None,
      [Log Debug ''Router: PACKET_IN.. Ingress=%v, SrcMAC=%v, DstMAC=%v'',
       Log Debug ''Router: handle outgoing packet.. SrcMAC=%v, DstMAC=%v, SrcIP=%v, DstIP=%v'',
       Log Debug
         ''Router: checking whether the outgoing packet (SrcMAC=%v) came from a gateway..'',
       Log Warning ''Router: IP spoofing is detected!! SrcIP=%v, DstIP=%v'']) \<and>
   isMyNetwork env0 (SrcIP ip_out) = Inr True \<and>
   db_GetGateways env0 = Inr [gw1, gw2] \<and>
   rand_Intn env0 (length [gw1, gw2]) < length [gw1, gw2] \<and>
   OnPacketIn env0 router0 finder0 port1 (frame mac_a vmac 0x0800 [3]) =
     (Return None,
      [Log Debug ''Router: PACKET_IN.. Ingress=%v, SrcMAC=%v, DstMAC=%v'',
       Log Debug ''Router: handle outgoing packet.. SrcMAC=%v, DstMAC=%v, SrcIP=%v, DstIP=%v'',
       Log Debug
         ''Router: checking whether the outgoing packet (SrcMAC=%v) came from a gateway..'',
       Log Debug ''Router: found a Gateway MAC: %v'',
       Log Debug ''Router: found a Gateway MAC: %v'',
       Log Debug ''Router: gateway %v is selected for the outgoing packet!'',
       Log Info ''Router: not found a path from %v to %v''])"
proof -
  have 1: "DstMAC (frame s vmac 0x0800 b) = r_mac router0" for s b
    by (simp add: frame_def router0_def)
  have 2: "eth_Type (frame s vmac 0x0800 b) = 0x0800" for s b
    by (simp add: frame_def)
  have 3: "IPv4_UnmarshalBinary env0 (eth_Payload (frame s vmac 0x0800 [3])) = Inr ip_out"
    "IPv4_UnmarshalBinary env0 (eth_Payload (frame s vmac 0x0800 [4])) = Inr ip_spoofed" for s
    by (simp_all add: frame_def env0_def)
  have 4: "db_IsRouter env0 (DstIP ip_out) = Inr False"
    "db_IsRouter env0 (DstIP ip_spoofed) = Inr False"
    by (simp_all add: env0_def ip_out_def ip_spoofed_def)
  have 5: "isMyNetwork env0 (DstIP ip_out) = Inr False"
    "isMyNetwork env0 (DstIP ip_spoofed) = Inr False"
    by (simp_all add: isMyNetwork_def env0_def ip_out_def ip_spoofed_def)
  have 6: "db_IsGateway env0 (SrcMAC (frame gw1 vmac 0x0800 [3])) = Inr True"
    "db_IsGateway env0 (SrcMAC (frame mac_a vmac 0x0800 b)) = Inr False" for b
    by (simp_all add: env0_def frame_def mac_a_def gw1_def gw2_def)
  have 7: "isMyNetwork env0 (SrcIP ip_spoofed) = Inr False"
    "isMyNetwork env0 (SrcIP ip_out) = Inr True"
    by (simp_all add: isMyNetwork_def env0_def ip_out_def ip_spoofed_def)
  have 8: "db_GetGateways env0 = Inr [gw1, gw2]" "rand_Intn env0 (Suc (Suc 0)) = Suc 0"
    by (simp_all add: env0_def)
  have 9: "route env0 finder0
      \<lparr>ingress = port1, ethernet = frame mac_a vmac 0x0800 [3], ipv4 = ip_out\<rparr> gw2 =
      (Return None, [Log Info ''Router: not found a path from %v to %v''])"
    by (simp add: route_def finder0_def port1_def port2_def dev0_def dev2_def)
  show ?thesis
    using handleOutgoing_order [where env = env0 and r = router0 and finder = finder0
        and port = port1 and eth = "frame gw1 vmac 0x0800 [3]" and ip = ip_out
        and gateways = "[gw1, gw2]", OF 1 2 3(1) 4(1) 5(1)]
      handleOutgoing_order [where env = env0 and r = router0 and finder = finder0
        and port = port1 and eth = "frame mac_a vmac 0x0800 [4]" and ip = ip_spoofed
        and gateways = "[gw1, gw2]", OF 1 2 3(2) 4(2) 5(2)]
      handleOutgoing_order [where env = env0 and r = router0 and finder = finder0
        and port = port1 and eth = "frame mac_a vmac 0x0800 [3]" and ip = ip_out
        and gateways = "[gw1, gw2]", OF 1 2 3(1) 4(1) 5(1)]
    by (simp add: 6 7 8 9 logged_def)
qed

subsection \<open>The router: no path, and the gateway choice\<close>

lemma route_no_path:
  assumes "finder_Node finder mac = Some n"
    and "d_id (np_device (ingress p)) \<noteq> d_id (np_device (nn_port n))"
    and "finder_Path finder (d_id (np_device (ingress p))) (d_id (np_device (nn_port n))) = []"
  shows "route env finder p mac =
     (Return None, [Log Info ''Router: not found a path from %v to %v''])"
  using assms by (simp add: route_def)

text \<open>
  C8. A packet to the virtual MAC that the router routes, incoming (the destination IP is
  in a configured network and \<open>FindMAC\<close> knows its MAC) or outgoing (the checks of the
  source pass and a gateway is picked): when the finder knows the node of the next-hop
  MAC on a device other than the ingress device and its path query between the two
  devices returns nil or an empty path, \<open>OnPacketIn\<close> returns nil, sends no packet-out,
  installs no flow and passes nothing on.
\<close>

theorem OnPacketIn_no_path:
  assumes "DstMAC eth = r_mac r" and "eth_Type eth = 0x0800"
    and "IPv4_UnmarshalBinary env (eth_Payload eth) = Inr ip"
    and "db_IsRouter env (DstIP ip) = Inr False"
    and "isMyNetwork env (DstIP ip) = Inr mine"
    and "if mine then db_FindMAC env (DstIP ip) = Inr (mac, True)
         else db_IsGateway env (SrcMAC eth) = Inr False \<and>
              isMyNetwork env (SrcIP ip) = Inr True \<and>
              db_GetGateways env = Inr gateways \<and> gateways \<noteq> [] \<and>
              pickGateway (rand_Intn env) gateways = Return mac"
    and "finder_Node finder mac = Some n"
    and "d_id (np_device port) \<noteq> d_id (np_device (nn_port n))"
    and "finder_Path finder (d_id (np_device port)) (d_id (np_device (nn_port n))) = []"
  shows "fst (OnPacketIn env r finder port eth) = Return None \<and>
         packet_outs (snd (OnPacketIn env r finder port eth)) = [] \<and>
         flow_mods (snd (OnPacketIn env r finder port eth)) = [] \<and>
         passed_on (snd (OnPacketIn env r finder port eth)) = []"
proof -
  let ?p = "\<lparr>ingress = port, ethernet = eth, ipv4 = ip\<rparr>"
  have rt: "route env finder ?p mac =
      (Return None, [Log Info ''Router: not found a path from %v to %v''])"
    using assms(7-9) by (intro route_no_path) simp_all
  show ?thesis
  proof (cases mine)
    case True
    then have "db_FindMAC env (DstIP ip) = Inr (mac, True)"
      using assms(6) by simp
    then have "handleIncoming env finder ?p =
        (Return None,
         [Log Debug ''Router: handle incoming packet.. SrcMAC=%v, DstMAC=%v, SrcIP=%v, DstIP=%v'',
          Log Debug ''Router: routing the incoming packet to a host.. DstIP=%v, DstMAC=%v'',
          Log Info ''Router: not found a path from %v to %v''])"
      by (simp add: handleIncoming_def logged_def rt)
    then show ?thesis
      using True assms(1-5) by (simp add: OnPacketIn_incoming logged_def)
  next
    case False
    then have o: "db_IsGateway env (SrcMAC eth) = Inr False"
      "isMyNetwork env (SrcIP ip) = Inr True"
      "db_GetGateways env = Inr gateways" "gateways \<noteq> []"
      "pickGateway (rand_Intn env) gateways = Return mac"
      using assms(6) by simp_all
    have "handleOutgoing env finder ?p =
        (Return None,
         [Log Debug ''Router: handle outgoing packet.. SrcMAC=%v, DstMAC=%v, SrcIP=%v, DstIP=%v'',
          Log Debug
            ''Router: checking whether the outgoing packet (SrcMAC=%v) came from a gateway..'']
         @ map (\<lambda>v. Log Debug ''Router: found a Gateway MAC: %v'') gateways
         @ [Log Debug ''Router: gateway %v is selected for the outgoing packet!'',
            Log Info ''Router: not found a path from %v to %v''])"
      using o by (simp add: handleOutgoing_def logged_def rt)
    then show ?thesis
      using False assms(1-5)
      by (simp add: OnPacketIn_outgoing logged_def packet_outs_append flow_mods_append
          passed_on_append observers_map_Log)
  qed
qed

theorem OnPacketIn_no_path_witness:
  "OnPacketIn env0 router0 finder0 port1 (frame mac_a vmac 0x0800 [2]) =
     (Return None,
      [Log Debug ''Router: PACKET_IN.. Ingress=%v, SrcMAC=%v, DstMAC=%v'',
       Log Debug ''Router: handle incoming packet.. SrcMAC=%v, DstMAC=%v, SrcIP=%v, DstIP=%v'',
       Log Debug ''Router: routing the incoming packet to a host.. DstIP=%v, DstMAC=%v'',
       Log Info ''Router: not found a path from %v to %v''])
   \<and> finder_Node finder0 mac_b = Some \<lparr>nn_port = port2, nn_mac = mac_b\<rparr>
   \<and> d_id (np_device port1) \<noteq> d_id (np_device port2)
   \<and> finder_Path finder0 (d_id (np_device port1)) (d_id (np_device port2)) = []
   \<and> fst (OnPacketIn env0 router0 finder0 port1 (frame mac_a vmac 0x0800 [3])) = Return None
   \<and> packet_outs (snd (OnPacketIn env0 router0 finder0 port1 (frame mac_a vmac 0x0800 [3]))) = []
   \<and> flow_mods (snd (OnPacketIn env0 router0 finder0 port1 (frame mac_a vmac 0x0800 [3]))) = []"
proof -
  let ?eth = "frame mac_a vmac 0x0800 [2]"
  let ?eth3 = "frame mac_a vmac 0x0800 [3]"
  have 1: "DstMAC (frame s vmac 0x0800 b) = r_mac router0" for s b
    by (simp add: frame_def router0_def)
  have 2: "eth_Type (frame s vmac 0x0800 b) = 0x0800" for s b
    by (simp add: frame_def)
  have 3: "IPv4_UnmarshalBinary env0 (eth_Payload ?eth) = Inr ip_in"
    "IPv4_UnmarshalBinary env0 (eth_Payload ?eth3) = Inr ip_out"
    by (simp_all add: frame_def env0_def)
  have 4: "db_IsRouter env0 (DstIP ip_in) = Inr False"
    "db_IsRouter env0 (DstIP ip_out) = Inr False"
    by (simp_all add: env0_def ip_in_def ip_out_def)
  have 5: "isMyNetwork env0 (DstIP ip_in) = Inr True"
    "isMyNetwork env0 (DstIP ip_out) = Inr False"
    by (simp_all add: isMyNetwork_def env0_def ip_in_def ip_out_def)
  have 6: "if True then db_FindMAC env0 (DstIP ip_in) = Inr (mac_b, True)
           else db_IsGateway env0 (SrcMAC ?eth) = Inr False \<and>
                isMyNetwork env0 (SrcIP ip_in) = Inr True \<and>
                db_GetGateways env0 = Inr [gw1, gw2] \<and> [gw1, gw2] \<noteq> [] \<and>
                pickGateway (rand_Intn env0) [gw1, gw2] = Return mac_b"
    by (simp add: env0_def ip_in_def)
  have g6: "if False then db_FindMAC env0 (DstIP ip_out) = Inr (gw2, True)
           else db_IsGateway env0 (SrcMAC ?eth3) = Inr False \<and>
                isMyNetwork env0 (SrcIP ip_out) = Inr True \<and>
                db_GetGateways env0 = Inr [gw1, gw2] \<and> [gw1, gw2] \<noteq> [] \<and>
                pickGateway (rand_Intn env0) [gw1, gw2] = Return gw2"
    by (simp add: env0_def ip_out_def frame_def isMyNetwork_def pickGateway_def
        mac_a_def gw1_def gw2_def)
  have 7: "finder_Node finder0 m = Some \<lparr>nn_port = port2, nn_mac = m\<rparr>"
    if "m = mac_b \<or> m = gw2" for m
    using that by (auto simp: finder0_def)
  have 8: "d_id (np_device port1) \<noteq> d_id (np_device (nn_port \<lparr>nn_port = port2, nn_mac = m\<rparr>))"
    for m
    by (simp add: port1_def port2_def dev0_def dev2_def)
  have 9: "finder_Path finder0 (d_id (np_device port1))
      (d_id (np_device (nn_port \<lparr>nn_port = port2, nn_mac = m\<rparr>))) = []" for m
    by (simp add: finder0_def)
  have e: "OnPacketIn env0 router0 finder0 port1 ?eth =
     (Return None,
      [Log Debug ''Router: PACKET_IN.. Ingress=%v, SrcMAC=%v, DstMAC=%v'',
       Log Debug ''Router: handle incoming packet.. SrcMAC=%v, DstMAC=%v, SrcIP=%v, DstIP=%v'',
       Log Debug ''Router: routing the incoming packet to a host.. DstIP=%v, DstMAC=%v'',
       Log Info ''Router: not found a path from %v to %v''])"
    using 6 7 [of mac_b] 8 [of mac_b] 9 [of mac_b]
    by (simp add: OnPacketIn_incoming [OF 1 2 3(1) 4(1) 5(1)] handleIncoming_def logged_def
        route_def)
  show ?thesis
    using OnPacketIn_no_path [OF 1 2 3(1) 4(1) 5(1) 6 7 8 9]
      OnPacketIn_no_path [OF 1 2 3(2) 4(2) 5(2) g6 7 8 9] e 7 [of mac_b] 8 [of mac_b] 9 [of mac_b]
    by simp
qed

lemma installFlow_no_panic_gw: "fst (installFlow env p) \<noteq> Panic ''Invalid gateways''"
  by (simp add: installFlow_def Let_def split: option.split)

lemma sendPacket_no_panic_gw: "fst (sendPacket env p egress mac) \<noteq> Panic ''Invalid gateways''"
proof -
  obtain x effs where i: "installFlow env
      \<lparr>fp_device = np_device (ingress p), etherType = eth_Type (ethernet p),
       inPort = np_number (ingress p), outPort = np_number egress,
       srcMAC = SrcMAC (ethernet p), dstMAC = DstMAC (ethernet p), targetMAC = mac,
       dstIP = \<lparr>net_IP = DstIP (ipv4 p), Mask = IPv4Mask 255 255 255 255\<rparr>\<rparr> = (x, effs)"
    by (cases "installFlow env
      \<lparr>fp_device = np_device (ingress p), etherType = eth_Type (ethernet p),
       inPort = np_number (ingress p), outPort = np_number egress,
       srcMAC = SrcMAC (ethernet p), dstMAC = DstMAC (ethernet p), targetMAC = mac,
       dstIP = \<lparr>net_IP = DstIP (ipv4 p), Mask = IPv4Mask 255 255 255 255\<rparr>\<rparr>")
  have "x \<noteq> Panic ''Invalid gateways''"
    using installFlow_no_panic_gw [of env] i by (metis fst_conv)
  then show ?thesis
    using i by (auto simp: sendPacket_def Let_def split: sum.split res.split option.split)
qed

lemma route_no_panic_gw: "fst (route env finder p mac) \<noteq> Panic ''Invalid gateways''"
  by (simp add: route_def Let_def logged_def sendPacket_no_panic_gw split: option.split)

lemma sendICMPReply_no_panic_gw: "fst (sendICMPReply env p) \<noteq> Panic ''Invalid gateways''"
  by (simp add: sendICMPReply_def Let_def split: sum.split)

lemma handleIncoming_no_panic_gw:
  "fst (handleIncoming env finder p) \<noteq> Panic ''Invalid gateways''"
  by (simp add: handleIncoming_def logged_def route_no_panic_gw split: sum.split prod.split)

lemma pickGateway_nonempty:
  "pickGateway intn gateways = Panic s \<Longrightarrow> gateways \<noteq> [] \<Longrightarrow> s \<noteq> ''Invalid gateways''"
  by (auto simp: pickGateway_def Let_def split: if_splits)

lemma handleOutgoing_no_panic_gw:
  "fst (handleOutgoing env finder p) \<noteq> Panic ''Invalid gateways''"
  by (auto simp: handleOutgoing_def logged_def route_no_panic_gw
      split: sum.split res.split dest: pickGateway_nonempty)

text \<open>
  C9. No execution of \<open>OnPacketIn\<close> ends in the panic of \<open>pickGateway\<close>: its only call
  comes after the test for an empty gateway list. A MAC that \<open>pickGateway\<close> returns is an
  element of the list, and on a non-empty list it returns one whenever \<open>rand.Intn(n)\<close>
  answers below \<open>n\<close>, as its contract says.
\<close>

theorem pickGateway_safe:
  "fst (OnPacketIn env r finder port eth) \<noteq> Panic ''Invalid gateways'' \<and>
   (\<forall>m. pickGateway intn gateways = Return m \<longrightarrow> m \<in> set gateways) \<and>
   (gateways \<noteq> [] \<and> intn (length gateways) < length gateways \<longrightarrow>
      (\<exists>m. pickGateway intn gateways = Return m \<and> m \<in> set gateways))"
proof -
  have a: "fst (OnPacketIn env r finder port eth) \<noteq> Panic ''Invalid gateways''"
    by (simp add: OnPacketIn_def logged_def Let_def sendICMPReply_no_panic_gw
        handleIncoming_no_panic_gw handleOutgoing_no_panic_gw split: sum.split)
  have b: "m \<in> set gateways" if "pickGateway intn gateways = Return m" for m
    using that by (auto simp: pickGateway_def Let_def split: if_splits)
  have c: "\<exists>m. pickGateway intn gateways = Return m"
    if "gateways \<noteq> []" "intn (length gateways) < length gateways"
    using that by (simp add: pickGateway_def)
  show ?thesis
    using a b c by blast
qed

theorem pickGateway_safe_witness:
  "[gw1, gw2] \<noteq> [] \<and> (\<lambda>n. n - 1) (length [gw1, gw2]) < length [gw1, gw2] \<and>
   pickGateway (\<lambda>n. n - 1) [gw1, gw2] = Return gw2 \<and> gw2 \<in> set [gw1, gw2]"
  using pickGateway_safe [where intn = "\<lambda>n. n - 1" and gateways = "[gw1, gw2]"
      and env = env0 and r = router0 and finder = finder0 and port = port1
      and eth = "frame mac_a vmac 0x0800 [3]"]
  by (simp add: pickGateway_def)

end
